theory Spec2Isabelle
  imports Main "HOL-Library.Sublist"
begin

section \<open>Python values and errors\<close>

text \<open>
  The configuration mappings handled by \<^verbatim>\<open>_provisionconfig.py\<close> are plain Python data:
  dictionaries with string keys whose values are strings, integers, booleans, \<^verbatim>\<open>None\<close>,
  lists and further dictionaries. A dictionary is an association list read with
  \<open>map_of\<close> (the first binding of a key is the one that counts). A character is a code
  point below 256. Floating point numbers are outside the model.
\<close>

datatype pyval =
    PNone
  | PBool bool
  | PInt int
  | PStr string
  | PList "pyval list"
  | PDict "(string \<times> pyval) list"

text \<open>
  The exceptions that the modelled code can raise. \<open>KeyError\<close> carries the key that was
  looked up, \<open>ValueError\<close> its message; the interpreter's messages of the other kinds
  are not modelled. \<open>OtherError\<close> stands for whatever a collaborator outside the
  sources raises.
\<close>

datatype py_error =
    KeyError pyval
  | IndexError
  | TypeError
  | AttributeError
  | ValueError string
  | UnboundLocalError
  | FileExistsError
  | FileNotFoundError
  | NotADirectoryError
  | IsADirectoryError
  | SameFileError
  | OtherError string

subsection \<open>Subscripting and \<^verbatim>\<open>dict.get\<close>\<close>

text \<open>\<^verbatim>\<open>xs[i]\<close> on a sequence: a negative index counts from the end, an index out of
  range raises \<^verbatim>\<open>IndexError\<close>.\<close>

definition seq_index :: "'a list \<Rightarrow> int \<Rightarrow> py_error + 'a" where
  "seq_index xs i =
     (if 0 \<le> i \<and> i < int (length xs) then Inr (xs ! nat i)
      else if i < 0 \<and> - int (length xs) \<le> i then Inr (xs ! nat (int (length xs) + i))
      else Inl IndexError)"

text \<open>\<^verbatim>\<open>v[i]\<close> with an integer \<open>i\<close>. A dictionary of the model has string keys only, so
  the integer is never one of its keys.\<close>

fun getitem_int :: "pyval \<Rightarrow> int \<Rightarrow> py_error + pyval" where
  "getitem_int (PList xs) i = seq_index xs i"
| "getitem_int (PStr s) i = map_sum id (\<lambda>c. PStr [c]) (seq_index s i)"
| "getitem_int (PDict d) i = Inl (KeyError (PInt i))"
| "getitem_int PNone i = Inl TypeError"
| "getitem_int (PBool b) i = Inl TypeError"
| "getitem_int (PInt n) i = Inl TypeError"

text \<open>\<^verbatim>\<open>v[k]\<close> with a string \<open>k\<close>: a lookup in a dictionary, a \<^verbatim>\<open>TypeError\<close> on
  everything else.\<close>

fun getitem_str :: "pyval \<Rightarrow> string \<Rightarrow> py_error + pyval" where
  "getitem_str (PDict d) k =
     (case map_of d k of None \<Rightarrow> Inl (KeyError (PStr k)) | Some v \<Rightarrow> Inr v)"
| "getitem_str v k = Inl TypeError"

text \<open>\<^verbatim>\<open>v.get(k, default)\<close>: only dictionaries have the method.\<close>

fun py_get :: "pyval \<Rightarrow> string \<Rightarrow> pyval \<Rightarrow> py_error + pyval" where
  "py_get (PDict d) k dflt = Inr (case map_of d k of None \<Rightarrow> dflt | Some v \<Rightarrow> v)"
| "py_get v k dflt = Inl AttributeError"

subsection \<open>\<^verbatim>\<open>str\<close>, \<^verbatim>\<open>repr\<close> and \<^verbatim>\<open>format\<close>\<close>

definition digit_char :: "nat \<Rightarrow> char" where
  "digit_char d = ''0123456789abcdef'' ! d"

fun str_nat :: "nat \<Rightarrow> string" where
  "str_nat n = (if n < 10 then [digit_char n] else str_nat (n div 10) @ [digit_char (n mod 10)])"

declare str_nat.simps [simp del]

definition str_int :: "int \<Rightarrow> string" where
  "str_int i = (if i < 0 then CHR ''-'' # str_nat (nat (- i)) else str_nat (nat i))"

text \<open>\<^verbatim>\<open>repr\<close> of a string: single quotes unless the string has a single quote and no
  double quote; the quote, the backslash, tab, newline and carriage return are escaped,
  every other unprintable code point is written \<^verbatim>\<open>\xNN\<close>.\<close>

definition printable :: "char \<Rightarrow> bool" where
  "printable c = (let n = (of_char c :: nat)
                  in (32 \<le> n \<and> n < 127) \<or> (161 \<le> n \<and> n \<noteq> 173))"

definition escape_char :: "char \<Rightarrow> char \<Rightarrow> string" where
  "escape_char q c =
     (if c = q \<or> c = CHR 0x5C then [CHR 0x5C, c]
      else if c = CHR 0x09 then [CHR 0x5C, CHR ''t'']
      else if c = CHR 0x0A then [CHR 0x5C, CHR ''n'']
      else if c = CHR 0x0D then [CHR 0x5C, CHR ''r'']
      else if printable c then [c]
      else [CHR 0x5C, CHR ''x'', digit_char (of_char c div 16), digit_char (of_char c mod 16)])"

definition repr_str :: "string \<Rightarrow> string" where
  "repr_str s =
     (let q = (if CHR 0x27 \<in> set s \<and> CHR 0x22 \<notin> set s then CHR 0x22 else CHR 0x27)
      in [q] @ concat (map (escape_char q) s) @ [q])"

text \<open>\<^verbatim>\<open>sep.join(xs)\<close> on a list of strings.\<close>

fun join :: "string \<Rightarrow> string list \<Rightarrow> string" where
  "join sep [] = []"
| "join sep [x] = x"
| "join sep (x # y # ys) = x @ sep @ join sep (y # ys)"

fun py_repr :: "pyval \<Rightarrow> string" where
  "py_repr PNone = ''None''"
| "py_repr (PBool b) = (if b then ''True'' else ''False'')"
| "py_repr (PInt i) = str_int i"
| "py_repr (PStr s) = repr_str s"
| "py_repr (PList xs) = ''['' @ join '', '' (map py_repr xs) @ '']''"
| "py_repr (PDict d) =
     ''{'' @ join '', '' (map (\<lambda>kv. repr_str (fst kv) @ '': '' @ py_repr (snd kv)) d) @ ''}''"

text \<open>\<^verbatim>\<open>'{}'.format(v)\<close> inserts \<^verbatim>\<open>format(v, '')\<close>, which is \<^verbatim>\<open>str(v)\<close> for every value of
  the model: the string itself for a string, the \<^verbatim>\<open>repr\<close> otherwise.\<close>

fun py_format :: "pyval \<Rightarrow> string" where
  "py_format (PStr s) = s"
| "py_format v = py_repr v"

text \<open>\<^verbatim>\<open>str(e)\<close> of a \<^verbatim>\<open>KeyError\<close> is the \<^verbatim>\<open>repr\<close> of the missing key.\<close>

definition str_KeyError :: "pyval \<Rightarrow> string" where
  "str_KeyError k = py_repr k"

text \<open>Iterating a value, as a list comprehension does: the elements of a list, the
  characters of a string, the keys of a dictionary.\<close>

fun py_iter :: "pyval \<Rightarrow> py_error + pyval list" where
  "py_iter (PList xs) = Inr xs"
| "py_iter (PStr s) = Inr (map (\<lambda>c. PStr [c]) s)"
| "py_iter (PDict d) = Inr (map PStr (remdups (map fst d)))"
| "py_iter v = Inl TypeError"

section \<open>Provisioning specifications\<close>

text \<open>
  Modelled from the spec: the module \<^verbatim>\<open>upgrade_testing.provisioning.backends\<close> with the
  classes \<^verbatim>\<open>LXCBackend\<close> and \<^verbatim>\<open>DeviceBackend\<close> is not among the sources; the spec
  names them external collaborators whose handle each specification constructs eagerly
  from its initial state. They are parameters here: a constructor returns a handle of
  some type \<open>'b\<close> or raises.
\<close>

record 'b backends =
  LXCBackend :: "pyval \<Rightarrow> pyval \<Rightarrow> py_error + 'b"
  DeviceBackend :: "pyval \<Rightarrow> pyval \<Rightarrow> pyval \<Rightarrow> pyval \<Rightarrow> py_error + 'b"

text \<open>The two concrete classes with their attributes, in the order the constructors
  assign them: \<open>distribution\<close>, \<open>releases\<close>, \<open>backend\<close> and \<open>channel\<close>, \<open>revisions\<close>,
  \<open>backend\<close>.\<close>

datatype 'b ProvisionSpecification =
    LXCProvisionSpecification pyval pyval 'b
  | DeviceProvisionSpecification pyval pyval 'b

datatype spec_type = LXCType | DeviceType

text \<open>\<^verbatim>\<open>DeviceProvisionSpecification._construct_state_string\<close>\<close>

definition construct_state_string :: "pyval \<Rightarrow> pyval \<Rightarrow> pyval" where
  "construct_state_string channel revision = PStr (py_format channel @ '':'' @ py_format revision)"

text \<open>The properties of the two classes, first on the attributes they read (the
  constructors call \<^verbatim>\<open>self.initial_state\<close> before \<^verbatim>\<open>self.backend\<close> is assigned), then on
  the objects.\<close>

definition lxc_initial_state :: "pyval \<Rightarrow> py_error + pyval" where
  "lxc_initial_state releases = getitem_int releases 0"

definition lxc_final_state :: "pyval \<Rightarrow> py_error + pyval" where
  "lxc_final_state releases = getitem_int releases (- 1)"

definition device_system_states :: "pyval \<Rightarrow> pyval \<Rightarrow> py_error + pyval" where
  "device_system_states channel revisions =
     map_sum id (\<lambda>rs. PList (map (construct_state_string channel) rs)) (py_iter revisions)"

definition device_initial_state :: "pyval \<Rightarrow> pyval \<Rightarrow> py_error + pyval" where
  "device_initial_state channel revisions =
     map_sum id (construct_state_string channel) (getitem_int revisions 0)"

definition device_final_state :: "pyval \<Rightarrow> pyval \<Rightarrow> py_error + pyval" where
  "device_final_state channel revisions =
     map_sum id (construct_state_string channel) (getitem_int revisions (- 1))"

fun system_states :: "'b ProvisionSpecification \<Rightarrow> py_error + pyval" where
  "system_states (LXCProvisionSpecification distribution releases backend) = Inr releases"
| "system_states (DeviceProvisionSpecification channel revisions backend) =
     device_system_states channel revisions"

fun initial_state :: "'b ProvisionSpecification \<Rightarrow> py_error + pyval" where
  "initial_state (LXCProvisionSpecification distribution releases backend) =
     lxc_initial_state releases"
| "initial_state (DeviceProvisionSpecification channel revisions backend) =
     device_initial_state channel revisions"

fun final_state :: "'b ProvisionSpecification \<Rightarrow> py_error + pyval" where
  "final_state (LXCProvisionSpecification distribution releases backend) =
     lxc_final_state releases"
| "final_state (DeviceProvisionSpecification channel revisions backend) =
     device_final_state channel revisions"

text \<open>\<^verbatim>\<open>LXCProvisionSpecification.__init__\<close>\<close>

definition LXCProvisionSpecification_init ::
  "'b backends \<Rightarrow> pyval \<Rightarrow> py_error + 'b ProvisionSpecification" where
  "LXCProvisionSpecification_init B provision_config =
     (case py_get provision_config ''distribution'' (PStr ''ubuntu'') of
        Inl e \<Rightarrow> Inl e
      | Inr distribution \<Rightarrow>
     (case getitem_str provision_config ''releases'' of
        Inl e \<Rightarrow> Inl e
      | Inr releases \<Rightarrow>
     (case lxc_initial_state releases of
        Inl e \<Rightarrow> Inl e
      | Inr initial \<Rightarrow>
     (case LXCBackend B initial distribution of
        Inl e \<Rightarrow> Inl e
      | Inr backend \<Rightarrow> Inr (LXCProvisionSpecification distribution releases backend)))))"

text \<open>\<^verbatim>\<open>DeviceProvisionSpecification.__init__\<close>: the two lookups stand in a \<^verbatim>\<open>try\<close> whose
  handler turns a \<^verbatim>\<open>KeyError\<close>, and nothing else, into a \<^verbatim>\<open>ValueError\<close>.\<close>

definition device_required :: "pyval \<Rightarrow> py_error + pyval \<times> pyval" where
  "device_required provision_config =
     (case getitem_str provision_config ''channel'' of
        Inl e \<Rightarrow> Inl e
      | Inr channel \<Rightarrow>
     (case getitem_str provision_config ''revisions'' of
        Inl e \<Rightarrow> Inl e
      | Inr revisions \<Rightarrow> Inr (channel, revisions)))"

definition DeviceProvisionSpecification_init ::
  "'b backends \<Rightarrow> pyval \<Rightarrow> py_error + 'b ProvisionSpecification" where
  "DeviceProvisionSpecification_init B provision_config =
     (case device_required provision_config of
        Inl (KeyError k) \<Rightarrow> Inl (ValueError (''Missing config detail: '' @ str_KeyError k))
      | Inl e \<Rightarrow> Inl e
      | Inr (channel, revisions) \<Rightarrow>
     (case py_get provision_config ''serial'' PNone of
        Inl e \<Rightarrow> Inl e
      | Inr serial \<Rightarrow>
     (case py_get provision_config ''password'' PNone of
        Inl e \<Rightarrow> Inl e
      | Inr password \<Rightarrow>
     (case device_initial_state channel revisions of
        Inl e \<Rightarrow> Inl e
      | Inr initial \<Rightarrow>
     (case DeviceBackend B channel initial password serial of
        Inl e \<Rightarrow> Inl e
      | Inr backend \<Rightarrow> Inr (DeviceProvisionSpecification channel revisions backend))))))"

text \<open>\<^verbatim>\<open>get_specification_type\<close>: the lookup in the dictionary with the keys \<^verbatim>\<open>lxc\<close> and
  \<^verbatim>\<open>device\<close>. A list or a dictionary is unhashable and raises \<^verbatim>\<open>TypeError\<close>; every
  other value that is not a key raises \<^verbatim>\<open>KeyError\<close>.\<close>

fun hashable :: "pyval \<Rightarrow> bool" where
  "hashable (PList xs) = False"
| "hashable (PDict d) = False"
| "hashable v = True"

definition get_specification_type :: "pyval \<Rightarrow> py_error + spec_type" where
  "get_specification_type spec_name =
     (if \<not> hashable spec_name then Inl TypeError
      else if spec_name = PStr ''lxc'' then Inr LXCType
      else if spec_name = PStr ''device'' then Inr DeviceType
      else Inl (KeyError spec_name))"

text \<open>Calling the class that \<^verbatim>\<open>get_specification_type\<close> returned.\<close>

fun call_spec_type ::
  "spec_type \<Rightarrow> 'b backends \<Rightarrow> pyval \<Rightarrow> py_error + 'b ProvisionSpecification" where
  "call_spec_type LXCType B provision_config = LXCProvisionSpecification_init B provision_config"
| "call_spec_type DeviceType B provision_config =
     DeviceProvisionSpecification_init B provision_config"

text \<open>\<^verbatim>\<open>ProvisionSpecification.from_testspec\<close>\<close>

definition from_testspec :: "'b backends \<Rightarrow> pyval \<Rightarrow> py_error + 'b ProvisionSpecification" where
  "from_testspec B spec =
     (case getitem_str spec ''provisioning'' of
        Inl e \<Rightarrow> Inl e
      | Inr provisioning \<Rightarrow>
     (case getitem_str provisioning ''backend'' of
        Inl e \<Rightarrow> Inl e
      | Inr backend_name \<Rightarrow>
     (case get_specification_type backend_name of
        Inl e \<Rightarrow> Inl e
      | Inr spec_type \<Rightarrow>
     (case getitem_str spec ''provisioning'' of
        Inl e \<Rightarrow> Inl e
      | Inr provisioning' \<Rightarrow> call_spec_type spec_type B provisioning'))))"

text \<open>\<^verbatim>\<open>ProvisionSpecification.from_provisionspec\<close>\<close>

definition from_provisionspec :: "'b backends \<Rightarrow> pyval \<Rightarrow> py_error + 'b ProvisionSpecification" where
  "from_provisionspec B spec =
     (case getitem_str spec ''backend'' of
        Inl e \<Rightarrow> Inl e
      | Inr backend_name \<Rightarrow>
     (case get_specification_type backend_name of
        Inl e \<Rightarrow> Inl e
      | Inr spec_type \<Rightarrow> call_spec_type spec_type B spec))"

section \<open>Preparing the test environment\<close>

subsection \<open>The filesystem\<close>

text \<open>
  A path is the list of its components, so \<^verbatim>\<open>os.path.join(p, name)\<close> is \<open>p @ [name]\<close>
  and the root is \<open>[]\<close>. The filesystem maps a path to a directory or to a file with
  its contents. Permissions, symbolic links and exhausted resources are outside the
  model; what is modelled of the library calls is which path they touch and the
  errors for a missing, existing or wrongly typed entry.
\<close>

type_synonym path = "string list"

datatype node = Dir | File string

type_synonym filesystem = "path \<Rightarrow> node option"


text \<open>A new entry needs its parent to be a directory.\<close>

definition parent_error :: "filesystem \<Rightarrow> path \<Rightarrow> py_error option" where
  "parent_error fs p =
     (case fs (butlast p) of
        None \<Rightarrow> Some FileNotFoundError
      | Some (File c) \<Rightarrow> Some NotADirectoryError
      | Some Dir \<Rightarrow> None)"

text \<open>\<^verbatim>\<open>os.mkdir\<close>\<close>

definition mkdir :: "path \<Rightarrow> filesystem \<Rightarrow> (py_error + unit) \<times> filesystem" where
  "mkdir p fs =
     (case parent_error fs p of
        Some e \<Rightarrow> (Inl e, fs)
      | None \<Rightarrow> if fs p \<noteq> None then (Inl FileExistsError, fs) else (Inr (), fs(p \<mapsto> Dir)))"

text \<open>\<^verbatim>\<open>tempfile.mkdtemp()\<close> makes a directory under a name that is not in use; the name
  it settles on is an input of the model. \<^verbatim>\<open>tempfile.mkstemp(dir=d)[1]\<close> does the same
  for an empty file inside \<open>d\<close> and returns its path.\<close>

definition mkdtemp :: "path \<Rightarrow> filesystem \<Rightarrow> (py_error + path) \<times> filesystem" where
  "mkdtemp p fs =
     (case mkdir p fs of (Inl e, fs') \<Rightarrow> (Inl e, fs') | (Inr u, fs') \<Rightarrow> (Inr p, fs'))"

definition mkstemp :: "path \<Rightarrow> string \<Rightarrow> filesystem \<Rightarrow> (py_error + path) \<times> filesystem" where
  "mkstemp d name fs =
     (case parent_error fs (d @ [name]) of
        Some e \<Rightarrow> (Inl e, fs)
      | None \<Rightarrow>
          if fs (d @ [name]) \<noteq> None then (Inl FileExistsError, fs)
          else (Inr (d @ [name]), fs(d @ [name] \<mapsto> File [])))"

text \<open>\<^verbatim>\<open>open(p, 'w')\<close> creates or truncates, \<^verbatim>\<open>open(p, 'a')\<close> creates or leaves the
  contents; \<^verbatim>\<open>f.write(s)\<close> appends to the file behind the handle.\<close>

definition open_write :: "path \<Rightarrow> filesystem \<Rightarrow> (py_error + unit) \<times> filesystem" where
  "open_write p fs =
     (case fs p of
        Some Dir \<Rightarrow> (Inl IsADirectoryError, fs)
      | Some (File c) \<Rightarrow> (Inr (), fs(p \<mapsto> File []))
      | None \<Rightarrow>
          (case parent_error fs p of
             Some e \<Rightarrow> (Inl e, fs)
           | None \<Rightarrow> (Inr (), fs(p \<mapsto> File []))))"

definition open_append :: "path \<Rightarrow> filesystem \<Rightarrow> (py_error + unit) \<times> filesystem" where
  "open_append p fs =
     (case fs p of
        Some Dir \<Rightarrow> (Inl IsADirectoryError, fs)
      | Some (File c) \<Rightarrow> (Inr (), fs)
      | None \<Rightarrow>
          (case parent_error fs p of
             Some e \<Rightarrow> (Inl e, fs)
           | None \<Rightarrow> (Inr (), fs(p \<mapsto> File []))))"

definition file_write :: "path \<Rightarrow> string \<Rightarrow> filesystem \<Rightarrow> filesystem" where
  "file_write p s fs = (case fs p of Some (File c) \<Rightarrow> fs(p \<mapsto> File (c @ s)) | _ \<Rightarrow> fs)"

text \<open>\<^verbatim>\<open>os.makedirs(p)\<close>: the missing ancestors first (a \<^verbatim>\<open>FileExistsError\<close> from there
  is passed over), then \<^verbatim>\<open>mkdir(p)\<close>, which raises when \<open>p\<close> exists.\<close>

function makedirs :: "path \<Rightarrow> filesystem \<Rightarrow> (py_error + unit) \<times> filesystem" where
  "makedirs p fs =
     (if p \<noteq> [] \<and> fs (butlast p) = None then
        (case makedirs (butlast p) fs of
           (Inl e, fs') \<Rightarrow> if e = FileExistsError then mkdir p fs' else (Inl e, fs')
         | (Inr u, fs') \<Rightarrow> mkdir p fs')
      else mkdir p fs)"
  by pat_completeness auto
termination
  by (relation "measure (\<lambda>(p, fs). length p)") auto

declare makedirs.simps [simp del]

text \<open>\<^verbatim>\<open>shutil.copyfile(src, dst)\<close>\<close>

definition copyfile :: "path \<Rightarrow> path \<Rightarrow> filesystem \<Rightarrow> (py_error + unit) \<times> filesystem" where
  "copyfile src dst fs =
     (if src = dst \<and> fs src \<noteq> None then (Inl SameFileError, fs)
      else
        (case fs src of
           None \<Rightarrow> (Inl FileNotFoundError, fs)
         | Some Dir \<Rightarrow> (Inl IsADirectoryError, fs)
         | Some (File c) \<Rightarrow>
             (case open_write dst fs of
                (Inl e, fs') \<Rightarrow> (Inl e, fs')
              | (Inr u, fs') \<Rightarrow> (Inr (), file_write dst c fs'))))"


subsection \<open>\<^verbatim>\<open>textwrap.dedent\<close>\<close>

text \<open>\<^verbatim>\<open>text.split('\n')\<close>\<close>

fun split_lines :: "string \<Rightarrow> string list" where
  "split_lines [] = [[]]"
| "split_lines (c # cs) =
     (if c = CHR 0x0A then [] # split_lines cs
      else (case split_lines cs of [] \<Rightarrow> [[c]] | l # ls \<Rightarrow> (c # l) # ls))"

definition is_blank :: "char \<Rightarrow> bool" where
  "is_blank c = (c = CHR '' '' \<or> c = CHR 0x09)"

text \<open>A line of blanks only becomes the empty line; the margin is the longest run of
  blanks that starts every line which has another character; it is cut off every line
  that starts with it.\<close>

definition normalize_line :: "string \<Rightarrow> string" where
  "normalize_line l = (if list_all is_blank l then [] else l)"

definition update_margin :: "string \<Rightarrow> string \<Rightarrow> string" where
  "update_margin margin indent =
     (if prefix margin indent then margin
      else if prefix indent margin then indent
      else longest_common_prefix margin indent)"

definition cut_margin :: "string \<Rightarrow> string \<Rightarrow> string" where
  "cut_margin margin l = (if prefix margin l then drop (length margin) l else l)"

definition dedent :: "string \<Rightarrow> string" where
  "dedent text =
     (let ls = map normalize_line (split_lines text);
          indents = map (takeWhile is_blank) (filter (\<lambda>l. l \<noteq> []) ls)
      in case indents of
           [] \<Rightarrow> join [CHR 0x0A] ls
         | i # is \<Rightarrow> join [CHR 0x0A] (map (cut_margin (foldl update_margin i is)) ls))"

subsection \<open>\<^verbatim>\<open>_hostprep.py\<close>\<close>

text \<open>
  Modelled from the spec: the \<^verbatim>\<open>TestSpecification\<close> class and
  \<^verbatim>\<open>get_testbed_storage_location\<close> are not among the sources. Of a test specification
  the code reads the pre-upgrade script names, the post-upgrade test names (lists of
  strings) and the provisioning specification; the storage location is a base path
  string. The results of the interpreter's own choices are inputs as well: the
  directory that \<^verbatim>\<open>mkdtemp\<close> settles on, the file name that \<^verbatim>\<open>mkstemp\<close> settles on and
  the directory of the packaged data files.
\<close>

record 'b TestSpecification =
  pre_upgrade_scripts :: "string list"
  post_upgrade_tests :: "string list"
  provisioning :: "'b ProvisionSpecification"

record environment =
  mkdtemp_path :: path
  mkstemp_name :: string
  testbed_storage_location :: string
  source_dir :: path

text \<open>The string literal of \<^verbatim>\<open>_write_run_config\<close> after \<^verbatim>\<open>format\<close>: three lines
  indented by twelve blanks and the eight blanks before the closing quotes.\<close>

definition config_template :: "string \<Rightarrow> string" where
  "config_template testbed_location =
     ''            # Auto Upgrade Test Configuration'' @ [CHR 0x0A] @
     ''            PRE_TEST_LOCATION='' @ [CHR 0x22] @ testbed_location @ ''/pre_scripts'' @
       [CHR 0x22, CHR 0x0A] @
     ''            POST_TEST_LOCATION='' @ [CHR 0x22] @ testbed_location @ ''/post_scripts'' @
       [CHR 0x22, CHR 0x0A] @
     ''        ''"

text \<open>\<^verbatim>\<open>'NAME="{}"\n'.format(value)\<close>\<close>

definition config_line :: "string \<Rightarrow> string \<Rightarrow> string" where
  "config_line name v = name @ ''='' @ [CHR 0x22] @ v @ [CHR 0x22, CHR 0x0A]"

text \<open>\<^verbatim>\<open>_write_run_config\<close>. The file is closed when the \<^verbatim>\<open>with\<close> block is left, also
  by an exception, so what was written before stays in the file.\<close>

definition write_run_config ::
  "environment \<Rightarrow> 'b TestSpecification \<Rightarrow> path \<Rightarrow> filesystem \<Rightarrow> (py_error + path) \<times> filesystem"
  where
  "write_run_config env testsuite temp_dir fs =
     (case mkstemp temp_dir (mkstemp_name env) fs of
        (Inl e, fs1) \<Rightarrow> (Inl e, fs1)
      | (Inr run_config_file, fs1) \<Rightarrow>
     (case open_write run_config_file fs1 of
        (Inl e, fs2) \<Rightarrow> (Inl e, fs2)
      | (Inr u, fs2) \<Rightarrow>
     (let pre_tests = join '' '' (pre_upgrade_scripts testsuite);
          post_tests = join '' '' (post_upgrade_tests testsuite);
          config_string = dedent (config_template (testbed_storage_location env));
          fs3 = file_write run_config_file config_string fs2;
          fs4 = file_write run_config_file (config_line ''PRE_TESTS_TO_RUN'' pre_tests) fs3;
          fs5 = file_write run_config_file (config_line ''POST_TESTS_TO_RUN'' post_tests) fs4
      in case initial_state (provisioning testsuite) of
           Inl e \<Rightarrow> (Inl e, fs5)
         | Inr initial \<Rightarrow>
        (let fs6 = file_write run_config_file
                     (config_line ''INITIAL_SYSTEM_STATE'' (py_format initial)) fs5
         in case final_state (provisioning testsuite) of
              Inl e \<Rightarrow> (Inl e, fs6)
            | Inr final \<Rightarrow>
                (Inr run_config_file,
                 file_write run_config_file
                   (config_line ''POST_SYSTEM_STATE'' (py_format final)) fs6)))))"

text \<open>The local function \<^verbatim>\<open>_copy_file\<close> of \<^verbatim>\<open>_create_autopkg_details\<close>.\<close>

definition copy_file ::
  "environment \<Rightarrow> path \<Rightarrow> string \<Rightarrow> filesystem \<Rightarrow> (py_error + unit) \<times> filesystem" where
  "copy_file env dest name fs = copyfile (source_dir env @ [name]) (dest @ [name]) fs"

text \<open>\<^verbatim>\<open>_create_autopkg_details\<close>\<close>

definition create_autopkg_details ::
  "environment \<Rightarrow> path \<Rightarrow> filesystem \<Rightarrow> (py_error + path) \<times> filesystem" where
  "create_autopkg_details env temp_dir fs =
     (let dir_tree = temp_dir @ [''debian''];
          test_dir_tree = dir_tree @ [''tests'']
      in case makedirs test_dir_tree fs of
           (Inl e, fs1) \<Rightarrow> (Inl e, fs1)
         | (Inr u, fs1) \<Rightarrow>
        (case copy_file env test_dir_tree ''control'' fs1 of
           (Inl e, fs2) \<Rightarrow> (Inl e, fs2)
         | (Inr u, fs2) \<Rightarrow>
        (case copy_file env test_dir_tree ''upgrade'' fs2 of
           (Inl e, fs3) \<Rightarrow> (Inl e, fs3)
         | (Inr u, fs3) \<Rightarrow>
        (case copy_file env dir_tree ''changelog'' fs3 of
           (Inl e, fs4) \<Rightarrow> (Inl e, fs4)
         | (Inr u, fs4) \<Rightarrow>
        (case open_append (dir_tree @ [''control'']) fs4 of
           (Inl e, fs5) \<Rightarrow> (Inl e, fs5)
         | (Inr u, fs5) \<Rightarrow> (Inr dir_tree, fs5))))))"


text \<open>The named tuple of the paths that are made for a run and removed afterwards.\<close>

record TestrunTempFiles =
  run_config_file :: path
  testrun_tmp_dir :: path
  unbuilt_dir :: path

text \<open>
  \<^verbatim>\<open>prepare_test_environment\<close> is a generator under \<^verbatim>\<open>contextmanager\<close>. Its code up to
  the \<^verbatim>\<open>yield\<close> runs when the \<^verbatim>\<open>with\<close> statement is entered: the result is the yielded
  value or the exception, together with the local variable \<^verbatim>\<open>temp_dir\<close> (unbound when
  \<^verbatim>\<open>mkdtemp\<close> raised) and the filesystem.
\<close>

definition prepare_test_environment_setup ::
  "environment \<Rightarrow> 'b TestSpecification \<Rightarrow> filesystem \<Rightarrow>
     (py_error + TestrunTempFiles) \<times> path option \<times> filesystem" where
  "prepare_test_environment_setup env testsuite fs =
     (case mkdtemp (mkdtemp_path env) fs of
        (Inl e, fs0) \<Rightarrow> (Inl e, None, fs0)
      | (Inr temp_dir, fs1) \<Rightarrow>
     (case write_run_config env testsuite temp_dir fs1 of
        (Inl e, fs2) \<Rightarrow> (Inl e, Some temp_dir, fs2)
      | (Inr run_config_path, fs2) \<Rightarrow>
     (case create_autopkg_details env temp_dir fs2 of
        (Inl e, fs3) \<Rightarrow> (Inl e, Some temp_dir, fs3)
      | (Inr unbuilt_dir', fs3) \<Rightarrow>
          (Inr \<lparr>run_config_file = run_config_path, testrun_tmp_dir = temp_dir,
                unbuilt_dir = temp_dir\<rparr>,
           Some temp_dir, fs3))))"







definition is_special :: "char \<Rightarrow> bool" where
  "is_special c = (c = CHR ''$'' \<or> c = CHR 0x60 \<or> c = CHR 0x5C)"



text \<open>A value that the shell takes as it is between double quotes: no double quote,
  dollar sign, backquote or backslash in it. A name that the shell assigns to.\<close>

definition shell_literal :: "string \<Rightarrow> bool" where
  "shell_literal v = list_all (\<lambda>c. c \<noteq> CHR 0x22 \<and> \<not> is_special c) v"


subsection \<open>The expected run configuration\<close>



section \<open>Example inputs\<close>

text \<open>Backends that succeed and keep the arguments they were constructed with.\<close>

definition recording_backends :: "pyval list backends" where
  "recording_backends =
     \<lparr>LXCBackend = (\<lambda>state distribution. Inr [state, distribution]),
      DeviceBackend = (\<lambda>channel state password serial. Inr [channel, state, password, serial])\<rparr>"

definition lxc_config :: "(string \<times> pyval) list" where
  "lxc_config =
     [(''backend'', PStr ''lxc''), (''releases'', PList [PStr ''14.04'', PStr ''16.04''])]"

definition device_config :: "(string \<times> pyval) list" where
  "device_config =
     [(''backend'', PStr ''device''), (''channel'', PStr ''stable''),
      (''revisions'', PList [PInt 1, PInt 2, PInt 3])]"

definition example_env :: environment where
  "example_env =
     \<lparr>mkdtemp_path = [''tmp'', ''tmpab12''], mkstemp_name = ''tmpcd34'',
      testbed_storage_location = ''/var/tmp/testbed'', source_dir = [''usr'', ''data'']\<rparr>"

definition example_fs :: filesystem where
  "example_fs =
     [[] \<mapsto> Dir, [''tmp''] \<mapsto> Dir, [''usr''] \<mapsto> Dir, [''usr'', ''data''] \<mapsto> Dir,
      [''usr'', ''data'', ''control''] \<mapsto> File ''Tests: upgrade'',
      [''usr'', ''data'', ''upgrade''] \<mapsto> File ''#!/bin/sh'',
      [''usr'', ''data'', ''changelog''] \<mapsto> File ''upgrade-testing (1)'']"

definition example_testsuite :: "pyval list TestSpecification" where
  "example_testsuite =
     \<lparr>pre_upgrade_scripts = [''a.sh'', ''b.sh''], post_upgrade_tests = [''check''],
      provisioning = LXCProvisionSpecification (PStr ''ubuntu'')
        (PList [PStr ''14.04'', PStr ''16.04'']) [PStr ''14.04'', PStr ''ubuntu'']\<rparr>"





section \<open>Properties of the provisioning specifications\<close>

lemma seq_index_first: "xs \<noteq> [] \<Longrightarrow> seq_index xs 0 = Inr (hd xs)"
  by (cases xs) (simp_all add: seq_index_def)

lemma seq_index_last: "xs \<noteq> [] \<Longrightarrow> seq_index xs (- 1) = Inr (last xs)"
  by (cases xs rule: rev_cases) (simp_all add: seq_index_def nth_append)

lemma seq_index_Nil: "seq_index [] i = Inl IndexError"
  by (simp add: seq_index_def)

lemma seq_index_Inr_nonempty: "seq_index xs i = Inr x \<Longrightarrow> xs \<noteq> []"
  by (auto simp: seq_index_Nil)

lemma LXC_init_Inr:
  assumes "LXCProvisionSpecification_init B cfg = Inr s"
  obtains d rel ini b where "cfg = PDict d" "map_of d ''releases'' = Some rel"
    "lxc_initial_state rel = Inr ini"
    "LXCBackend B ini (case map_of d ''distribution'' of None \<Rightarrow> PStr ''ubuntu'' | Some v \<Rightarrow> v) = Inr b"
    "s = LXCProvisionSpecification (case map_of d ''distribution'' of None \<Rightarrow> PStr ''ubuntu'' | Some v \<Rightarrow> v) rel b"
  using assms
  by (cases cfg) (auto simp: LXCProvisionSpecification_init_def split: sum.splits option.splits)

lemma device_required_dict:
  "device_required (PDict d) =
     (case map_of d ''channel'' of None \<Rightarrow> Inl (KeyError (PStr ''channel''))
      | Some c \<Rightarrow> (case map_of d ''revisions'' of None \<Rightarrow> Inl (KeyError (PStr ''revisions''))
                   | Some r \<Rightarrow> Inr (c, r)))"
  by (simp add: device_required_def split: option.splits)

lemma device_required_Inr:
  "device_required cfg = Inr (c, r) \<Longrightarrow>
     \<exists>d. cfg = PDict d \<and> map_of d ''channel'' = Some c \<and> map_of d ''revisions'' = Some r"
  by (cases cfg) (auto simp: device_required_def split: option.splits)

lemma Device_init_Inr:
  assumes "DeviceProvisionSpecification_init B cfg = Inr s"
  obtains d c r ini b where "cfg = PDict d" "map_of d ''channel'' = Some c"
    "map_of d ''revisions'' = Some r" "device_initial_state c r = Inr ini"
    "s = DeviceProvisionSpecification c r b"
proof -
  from assms obtain c r where req: "device_required cfg = Inr (c, r)"
    by (auto simp: DeviceProvisionSpecification_init_def split: sum.splits py_error.splits)
  then obtain d where d: "cfg = PDict d" "map_of d ''channel'' = Some c" "map_of d ''revisions'' = Some r"
    by (blast dest: device_required_Inr)
  from assms req d obtain ini b where "device_initial_state c r = Inr ini" "s = DeviceProvisionSpecification c r b"
    by (auto simp: DeviceProvisionSpecification_init_def split: sum.splits)
  with d that show thesis by blast
qed

text \<open>
  Claim C1. A Device specification constructed from a mapping with the channel string
  \<open>C\<close> and the non-empty revisions list \<open>V\<close> has as many system states as \<open>V\<close> has
  elements, the state at index \<open>i\<close> is the string \<open>C\<close>, a colon and the formatted
  \<open>V[i]\<close>, the initial state is the one of the first revision and the final state the
  one of the last revision.
\<close>

theorem device_system_states_composite:
  assumes "map_of m ''channel'' = Some (PStr C)"
    and "map_of m ''revisions'' = Some (PList V)"
    and "V \<noteq> []"
    and "DeviceProvisionSpecification_init B (PDict m) = Inr s"
  shows "\<exists>ss. system_states s = Inr (PList ss) \<and> length ss = length V \<and>
           (\<forall>i<length V. ss ! i = PStr (C @ '':'' @ py_format (V ! i))) \<and>
           initial_state s = Inr (PStr (C @ '':'' @ py_format (hd V))) \<and>
           final_state s = Inr (PStr (C @ '':'' @ py_format (last V)))"
proof -
  from assms(4) obtain b where s: "s = DeviceProvisionSpecification (PStr C) (PList V) b"
    using assms(1,2) by (elim Device_init_Inr) auto
  show ?thesis
    using \<open>V \<noteq> []\<close>
    by (simp add: s device_system_states_def device_initial_state_def device_final_state_def
        construct_state_string_def seq_index_first seq_index_last)
qed

text \<open>
  Claim C2. A Container specification constructed from a mapping with the non-empty
  releases list \<open>R\<close> has \<open>R\<close> itself as system states, the first element of \<open>R\<close> as
  initial state and the last element of \<open>R\<close> as final state.
\<close>

theorem lxc_system_states_verbatim:
  assumes "map_of m ''releases'' = Some (PList R)"
    and "R \<noteq> []"
    and "LXCProvisionSpecification_init B (PDict m) = Inr s"
  shows "system_states s = Inr (PList R) \<and> initial_state s = Inr (hd R) \<and>
         final_state s = Inr (last R)"
proof -
  from assms(3) obtain d b where s: "s = LXCProvisionSpecification d (PList R) b"
    using assms(1) by (elim LXC_init_Inr) auto
  show ?thesis
    using \<open>R \<noteq> []\<close>
    by (simp add: s lxc_initial_state_def lxc_final_state_def seq_index_first seq_index_last)
qed

lemma repr_str_channel: "repr_str ''channel'' = [CHR 0x27] @ ''channel'' @ [CHR 0x27]"
  by (simp add: repr_str_def Let_def escape_char_def printable_def)

lemma repr_str_revisions: "repr_str ''revisions'' = [CHR 0x27] @ ''revisions'' @ [CHR 0x27]"
  by (simp add: repr_str_def Let_def escape_char_def printable_def)

text \<open>
  Claim C3. Constructing a Device specification from a mapping without the key
  \<^verbatim>\<open>channel\<close> raises a \<^verbatim>\<open>ValueError\<close>, not the \<^verbatim>\<open>KeyError\<close> of the lookup, and its message
  names \<^verbatim>\<open>channel\<close>; from a mapping with \<^verbatim>\<open>channel\<close> and without \<^verbatim>\<open>revisions\<close> the message
  names \<^verbatim>\<open>revisions\<close>.
\<close>

theorem device_missing_key_value_error:
  "(map_of m ''channel'' = None \<longrightarrow>
      DeviceProvisionSpecification_init B (PDict m) =
        Inl (ValueError (''Missing config detail: '' @ [CHR 0x27] @ ''channel'' @ [CHR 0x27]))) \<and>
   (map_of m ''channel'' \<noteq> None \<longrightarrow> map_of m ''revisions'' = None \<longrightarrow>
      DeviceProvisionSpecification_init B (PDict m) =
        Inl (ValueError (''Missing config detail: '' @ [CHR 0x27] @ ''revisions'' @ [CHR 0x27])))"
  by (auto simp: DeviceProvisionSpecification_init_def device_required_dict str_KeyError_def
      repr_str_channel repr_str_revisions)


lemma py_iter_getitem0:
  assumes "getitem_int v 0 = Inr x"
  obtains xs where "py_iter v = Inr xs" "xs \<noteq> []" "x = hd xs"
    "getitem_int v (- 1) = Inr (last xs)"
proof (cases v)
  case (PList xs)
  with assms have ne: "xs \<noteq> []" by (auto dest: seq_index_Inr_nonempty)
  with assms PList that show thesis by (simp add: seq_index_first seq_index_last)
next
  case (PStr str)
  with assms have ne: "str \<noteq> []" by (cases "seq_index str 0") (auto dest: seq_index_Inr_nonempty)
  with assms PStr that [of "map (\<lambda>c. PStr [c]) str"] show thesis
    by (simp add: seq_index_first seq_index_last hd_map last_map)
qed (use assms in auto)

text \<open>
  Claim C4. Construction fails for a mapping whose releases list (Container) or
  revisions list (Device) is empty. Every specification that either constructor
  returns has system states, they are not empty, and its initial and final state are
  the first and the last of them.
\<close>

theorem empty_states_construction_fails:
  "(map_of m ''releases'' = Some (PList []) \<longrightarrow>
      LXCProvisionSpecification_init B (PDict m) = Inl IndexError) \<and>
   (map_of m ''revisions'' = Some (PList []) \<longrightarrow>
      (\<exists>e. DeviceProvisionSpecification_init B (PDict m) = Inl e)) \<and>
   (LXCProvisionSpecification_init B cfg = Inr s \<or>
    DeviceProvisionSpecification_init B cfg = Inr s \<longrightarrow>
      (\<exists>v ss. system_states s = Inr v \<and> py_iter v = Inr ss \<and> ss \<noteq> [] \<and>
         initial_state s = Inr (hd ss) \<and> final_state s = Inr (last ss)))"
proof (intro conjI impI)
  assume "map_of m ''releases'' = Some (PList [])"
  then show "LXCProvisionSpecification_init B (PDict m) = Inl IndexError"
    by (simp add: LXCProvisionSpecification_init_def lxc_initial_state_def seq_index_Nil)
next
  assume r: "map_of m ''revisions'' = Some (PList [])"
  show "\<exists>e. DeviceProvisionSpecification_init B (PDict m) = Inl e"
  proof (cases "DeviceProvisionSpecification_init B (PDict m)")
    case (Inr s)
    then show ?thesis using r
      by (elim Device_init_Inr) (simp add: device_initial_state_def seq_index_Nil)
  qed simp
next
  assume "LXCProvisionSpecification_init B cfg = Inr s \<or>
    DeviceProvisionSpecification_init B cfg = Inr s"
  then show "\<exists>v ss. system_states s = Inr v \<and> py_iter v = Inr ss \<and> ss \<noteq> [] \<and>
         initial_state s = Inr (hd ss) \<and> final_state s = Inr (last ss)"
  proof
    assume "LXCProvisionSpecification_init B cfg = Inr s"
    then obtain dist rel ini b where s: "s = LXCProvisionSpecification dist rel b"
      and ini: "getitem_int rel 0 = Inr ini"
      by (elim LXC_init_Inr) (simp add: lxc_initial_state_def)
    from ini show ?thesis
      by (elim py_iter_getitem0) (simp add: s lxc_initial_state_def lxc_final_state_def ini)
  next
    assume "DeviceProvisionSpecification_init B cfg = Inr s"
    then obtain c r ini b where s: "s = DeviceProvisionSpecification c r b"
      and ini: "device_initial_state c r = Inr ini"
      by (elim Device_init_Inr)
    from ini obtain x where x: "getitem_int r 0 = Inr x"
      by (cases "getitem_int r 0") (auto simp: device_initial_state_def)
    from x show ?thesis
      by (elim py_iter_getitem0)
        (simp add: s x device_system_states_def device_initial_state_def device_final_state_def
          hd_map last_map)
  qed
qed

lemma get_specification_type_unknown:
  "hashable n \<Longrightarrow> n \<noteq> PStr ''lxc'' \<Longrightarrow> n \<noteq> PStr ''device'' \<Longrightarrow>
     get_specification_type n = Inl (KeyError n)"
  by (simp add: get_specification_type_def)

text \<open>
  Claim C5. For a backend name other than \<^verbatim>\<open>lxc\<close> and \<^verbatim>\<open>device\<close>, \<^verbatim>\<open>from_provisionspec\<close>
  and \<^verbatim>\<open>from_testspec\<close> both raise the \<^verbatim>\<open>KeyError\<close> of the lookup in the table of
  specification types, carrying that name; it is not turned into a \<^verbatim>\<open>ValueError\<close>.
\<close>

theorem unknown_backend_key_error:
  assumes "hashable n" and "n \<noteq> PStr ''lxc''" and "n \<noteq> PStr ''device''"
    and "map_of m ''backend'' = Some n"
    and "map_of t ''provisioning'' = Some (PDict m)"
  shows "from_provisionspec B (PDict m) = Inl (KeyError n) \<and>
         from_testspec B (PDict t) = Inl (KeyError n)"
  using assms by (simp add: from_provisionspec_def from_testspec_def get_specification_type_unknown)

text \<open>
  Claim C10. For a mapping with the key \<^verbatim>\<open>provisioning\<close>, \<^verbatim>\<open>from_testspec\<close> of the
  mapping and \<^verbatim>\<open>from_provisionspec\<close> of the sub-mapping have the same outcome: the same
  specification or the same exception.
\<close>

theorem from_testspec_eq_from_provisionspec:
  assumes "map_of m ''provisioning'' = Some p"
  shows "from_testspec B (PDict m) = from_provisionspec B p"
  using assms by (simp add: from_testspec_def from_provisionspec_def split: sum.splits)



theorem device_system_states_composite_witness:
  "DeviceProvisionSpecification_init recording_backends (PDict device_config) =
     Inr (DeviceProvisionSpecification (PStr ''stable'') (PList [PInt 1, PInt 2, PInt 3])
            [PStr ''stable'', PStr ''stable:1'', PNone, PNone]) \<and>
   (\<exists>ss. system_states (DeviceProvisionSpecification (PStr ''stable'')
            (PList [PInt 1, PInt 2, PInt 3]) [PStr ''stable'', PStr ''stable:1'', PNone, PNone]) =
          Inr (PList ss) \<and> ss ! 1 = PStr ''stable:2'') \<and>
   initial_state (DeviceProvisionSpecification (PStr ''stable'')
      (PList [PInt 1, PInt 2, PInt 3]) [PStr ''stable'', PStr ''stable:1'', PNone, PNone]) =
     Inr (PStr ''stable:1'') \<and>
   final_state (DeviceProvisionSpecification (PStr ''stable'')
      (PList [PInt 1, PInt 2, PInt 3]) [PStr ''stable'', PStr ''stable:1'', PNone, PNone]) =
     Inr (PStr ''stable:3'')"
proof -
  have fmt: "str_int 1 = ''1''" "str_int 2 = ''2''" "str_int 3 = ''3''"
    by code_simp+
  have init: "DeviceProvisionSpecification_init recording_backends (PDict device_config) =
     Inr (DeviceProvisionSpecification (PStr ''stable'') (PList [PInt 1, PInt 2, PInt 3])
            [PStr ''stable'', PStr ''stable:1'', PNone, PNone])"
    by (simp add: DeviceProvisionSpecification_init_def device_required_def device_config_def
        recording_backends_def device_initial_state_def construct_state_string_def seq_index_def fmt)
  have c: "map_of device_config ''channel'' = Some (PStr ''stable'')"
    and r: "map_of device_config ''revisions'' = Some (PList [PInt 1, PInt 2, PInt 3])"
    by (simp_all add: device_config_def)
  have ne: "[PInt 1, PInt 2, PInt 3] \<noteq> []" by simp
  from device_system_states_composite [OF c r ne init] init show ?thesis
    by (auto simp: fmt)
qed


theorem lxc_system_states_verbatim_witness:
  "map_of lxc_config ''releases'' = Some (PList [PStr ''14.04'', PStr ''16.04'']) \<and>
   LXCProvisionSpecification_init recording_backends (PDict lxc_config) =
     Inr (provisioning example_testsuite) \<and>
   system_states (provisioning example_testsuite) = Inr (PList [PStr ''14.04'', PStr ''16.04'']) \<and>
   initial_state (provisioning example_testsuite) = Inr (PStr ''14.04'') \<and>
   final_state (provisioning example_testsuite) = Inr (PStr ''16.04'')"
proof -
  have r: "map_of lxc_config ''releases'' = Some (PList [PStr ''14.04'', PStr ''16.04''])"
    by (simp add: lxc_config_def)
  have ne: "[PStr ''14.04'', PStr ''16.04''] \<noteq> []" by simp
  have init: "LXCProvisionSpecification_init recording_backends (PDict lxc_config) =
     Inr (provisioning example_testsuite)"
    by (simp add: LXCProvisionSpecification_init_def lxc_config_def recording_backends_def
        lxc_initial_state_def seq_index_def example_testsuite_def)
  from lxc_system_states_verbatim [OF r ne init] r init show ?thesis by simp
qed

theorem device_missing_key_value_error_witness:
  "map_of lxc_config ''channel'' = None \<and>
   DeviceProvisionSpecification_init recording_backends (PDict lxc_config) =
     Inl (ValueError (''Missing config detail: '' @ [CHR 0x27] @ ''channel'' @ [CHR 0x27])) \<and>
   map_of [(''channel'', PStr ''stable'')] ''channel'' \<noteq> None \<and>
   map_of [(''channel'', PStr ''stable'')] ''revisions'' = None \<and>
   DeviceProvisionSpecification_init recording_backends (PDict [(''channel'', PStr ''stable'')]) =
     Inl (ValueError (''Missing config detail: '' @ [CHR 0x27] @ ''revisions'' @ [CHR 0x27]))"
proof -
  have a: "map_of lxc_config ''channel'' = None" by (simp add: lxc_config_def)
  have b: "map_of [(''channel'', PStr ''stable'')] ''channel'' \<noteq> None"
    "map_of [(''channel'', PStr ''stable'')] ''revisions'' = None" by simp_all
  from a b device_missing_key_value_error [of lxc_config recording_backends]
    device_missing_key_value_error [of "[(''channel'', PStr ''stable'')]" recording_backends]
  show ?thesis by blast
qed

theorem empty_states_construction_fails_witness:
  "map_of [(''releases'', PList [])] ''releases'' = Some (PList []) \<and>
   LXCProvisionSpecification_init recording_backends (PDict [(''releases'', PList [])]) =
     Inl IndexError \<and>
   map_of [(''channel'', PStr ''stable''), (''revisions'', PList [])] ''revisions'' =
     Some (PList []) \<and>
   (\<exists>e. DeviceProvisionSpecification_init recording_backends
          (PDict [(''channel'', PStr ''stable''), (''revisions'', PList [])]) = Inl e) \<and>
   LXCProvisionSpecification_init recording_backends (PDict lxc_config) =
     Inr (provisioning example_testsuite) \<and>
   (\<exists>v ss. system_states (provisioning example_testsuite) = Inr v \<and> py_iter v = Inr ss \<and>
      ss \<noteq> [] \<and> initial_state (provisioning example_testsuite) = Inr (hd ss) \<and>
      final_state (provisioning example_testsuite) = Inr (last ss))"
proof -
  have a: "map_of [(''releases'', PList [])] ''releases'' = Some (PList [])" by simp
  have b: "map_of [(''channel'', PStr ''stable''), (''revisions'', PList [])] ''revisions'' =
     Some (PList [])" by simp
  have init: "LXCProvisionSpecification_init recording_backends (PDict lxc_config) =
     Inr (provisioning example_testsuite)"
    by (simp add: LXCProvisionSpecification_init_def lxc_config_def recording_backends_def
        lxc_initial_state_def seq_index_def example_testsuite_def)
  from a b init
    empty_states_construction_fails [where m = "[(''releases'', PList [])]"
      and B = recording_backends and cfg = "PDict lxc_config"
      and s = "provisioning example_testsuite"]
    empty_states_construction_fails [where
      m = "[(''channel'', PStr ''stable''), (''revisions'', PList [])]"
      and B = recording_backends and cfg = "PDict lxc_config"
      and s = "provisioning example_testsuite"]
  show ?thesis by blast
qed

theorem unknown_backend_key_error_witness:
  "hashable (PStr ''kvm'') \<and> PStr ''kvm'' \<noteq> PStr ''lxc'' \<and> PStr ''kvm'' \<noteq> PStr ''device'' \<and>
   from_provisionspec recording_backends (PDict [(''backend'', PStr ''kvm'')]) =
     Inl (KeyError (PStr ''kvm'')) \<and>
   from_testspec recording_backends
     (PDict [(''provisioning'', PDict [(''backend'', PStr ''kvm'')])]) =
     Inl (KeyError (PStr ''kvm''))"
proof -
  have h: "hashable (PStr ''kvm'')" "PStr ''kvm'' \<noteq> PStr ''lxc''" "PStr ''kvm'' \<noteq> PStr ''device''"
    "map_of [(''backend'', PStr ''kvm'')] ''backend'' = Some (PStr ''kvm'')"
    "map_of [(''provisioning'', PDict [(''backend'', PStr ''kvm'')])] ''provisioning'' =
       Some (PDict [(''backend'', PStr ''kvm'')])"
    by simp_all
  from unknown_backend_key_error [OF h, of recording_backends] h show ?thesis by simp
qed


theorem from_testspec_eq_from_provisionspec_witness:
  "map_of [(''provisioning'', PDict device_config)] ''provisioning'' = Some (PDict device_config) \<and>
   from_testspec recording_backends (PDict [(''provisioning'', PDict device_config)]) =
     from_provisionspec recording_backends (PDict device_config) \<and>
   from_provisionspec recording_backends (PDict device_config) =
     Inr (DeviceProvisionSpecification (PStr ''stable'') (PList [PInt 1, PInt 2, PInt 3])
            [PStr ''stable'', PStr ''stable:1'', PNone, PNone])"
proof -
  have fmt: "str_int 1 = ''1''" by code_simp
  have a: "map_of [(''provisioning'', PDict device_config)] ''provisioning'' =
     Some (PDict device_config)" by simp
  have b: "from_provisionspec recording_backends (PDict device_config) =
     Inr (DeviceProvisionSpecification (PStr ''stable'') (PList [PInt 1, PInt 2, PInt 3])
            [PStr ''stable'', PStr ''stable:1'', PNone, PNone])"
    by (simp add: from_provisionspec_def get_specification_type_def
        DeviceProvisionSpecification_init_def device_required_def device_config_def
        recording_backends_def device_initial_state_def construct_state_string_def
        seq_index_def fmt)
  from from_testspec_eq_from_provisionspec [OF a, of recording_backends] a b
  show ?thesis by simp
qed

section \<open>Properties of the environment preparation\<close>

lemma mkdir_keeps: "fs q = Some n \<Longrightarrow> snd (mkdir p fs) q = Some n"
  by (auto simp: mkdir_def split: option.splits)

lemma makedirs_keeps: "fs q = Some n \<Longrightarrow> snd (makedirs p fs) q = Some n"
proof (induction p fs rule: makedirs.induct)
  case (1 p fs)
  show ?case
  proof (cases "p \<noteq> [] \<and> fs (butlast p) = None")
    case True
    with 1 have "snd (makedirs (butlast p) fs) q = Some n" by simp
    then show ?thesis
      using True
      by (subst makedirs.simps) (auto simp: mkdir_keeps split: prod.splits sum.splits)
  next
    case False
    then show ?thesis
      using 1(2) by (subst makedirs.simps) (auto simp: mkdir_keeps)
  qed
qed

lemma mkstemp_keeps: "fs q = Some n \<Longrightarrow> snd (mkstemp d name fs) q = Some n"
  by (auto simp: mkstemp_def split: option.splits)

lemma open_write_keeps_dir: "fs q = Some Dir \<Longrightarrow> snd (open_write p fs) q = Some Dir"
  by (auto simp: open_write_def split: option.splits node.splits)

lemma open_append_keeps: "fs q = Some n \<Longrightarrow> snd (open_append p fs) q = Some n"
  by (auto simp: open_append_def split: option.splits node.splits)

lemma file_write_keeps_dir: "fs q = Some Dir \<Longrightarrow> file_write p s fs q = Some Dir"
  by (auto simp: file_write_def split: option.splits node.splits)

lemma copyfile_keeps_dir: "fs q = Some Dir \<Longrightarrow> snd (copyfile src dst fs) q = Some Dir"
  by (auto simp: copyfile_def open_write_def file_write_def
      split: option.splits node.splits prod.splits sum.splits)

lemma copyfile_other: "q \<noteq> dst \<Longrightarrow> snd (copyfile src dst fs) q = fs q"
  by (auto simp: copyfile_def open_write_def file_write_def
      split: option.splits node.splits prod.splits sum.splits)

lemma write_run_config_keeps_dir:
  "fs q = Some Dir \<Longrightarrow> snd (write_run_config env ts d fs) q = Some Dir"
  unfolding write_run_config_def Let_def
  by (auto split: prod.splits sum.splits
      dest!: arg_cong [where f = snd]
      simp: file_write_keeps_dir open_write_keeps_dir mkstemp_keeps)


lemma copy_file_keeps_dir: "fs q = Some Dir \<Longrightarrow> snd (copy_file env dest name fs) q = Some Dir"
  by (simp add: copy_file_def copyfile_keeps_dir)

lemma create_autopkg_details_keeps_dir:
  "fs q = Some Dir \<Longrightarrow> snd (create_autopkg_details env d fs) q = Some Dir"
  unfolding create_autopkg_details_def Let_def
  by (auto split: prod.splits sum.splits
      dest!: arg_cong [where f = snd]
      simp: makedirs_keeps copy_file_keeps_dir open_append_keeps)

lemma mkdtemp_Inr: "mkdtemp p fs = (Inr d, fs1) \<Longrightarrow> d = p \<and> fs1 d = Some Dir"
  by (auto simp: mkdtemp_def mkdir_def split: option.splits if_splits)

lemma setup_temp_dir:
  assumes "prepare_test_environment_setup env ts fs = (r, Some d, fs1)"
  shows "d = mkdtemp_path env \<and> fs1 d = Some Dir"
proof -
  obtain r0 fs0 where m: "mkdtemp (mkdtemp_path env) fs = (r0, fs0)" by (cases "mkdtemp (mkdtemp_path env) fs")
  show ?thesis
  proof (cases r0)
    case (Inl e)
    with assms m show ?thesis by (simp add: prepare_test_environment_setup_def)
  next
    case (Inr t)
    with m have t: "t = mkdtemp_path env" "fs0 t = Some Dir" by (auto dest: mkdtemp_Inr)
    then have w: "snd (write_run_config env ts t fs0) t = Some Dir"
      by (simp add: write_run_config_keeps_dir)
    then have c: "snd (create_autopkg_details env t (snd (write_run_config env ts t fs0))) t = Some Dir"
      by (simp add: create_autopkg_details_keeps_dir)
    from assms m Inr w c t(1) show ?thesis
      by (auto simp: prepare_test_environment_setup_def split: prod.splits sum.splits)
  qed
qed


lemma file_write_file:
  "fs p = Some (File c) \<Longrightarrow> file_write p s fs = fs(p \<mapsto> File (c @ s))"
  by (simp add: file_write_def)

lemma mkstemp_Inr:
  "mkstemp d name fs = (Inr p, fs1) \<Longrightarrow> p = d @ [name] \<and> fs1 = fs(p \<mapsto> File [])"
  by (auto simp: mkstemp_def split: option.splits if_splits)

lemma open_write_file:
  "fs p = Some (File c) \<Longrightarrow> open_write p fs = (Inr (), fs(p \<mapsto> File []))"
  by (simp add: open_write_def)

lemma write_run_config_Inr:
  assumes "write_run_config env ts d fs = (Inr p, fs')"
  shows "p = d @ [mkstemp_name env] \<and> (\<exists>c. fs' p = Some (File c))"
proof -
  from assms obtain fs1 where m: "mkstemp d (mkstemp_name env) fs = (Inr (d @ [mkstemp_name env]), fs1)"
    by (auto simp: write_run_config_def split: prod.splits sum.splits dest: mkstemp_Inr)
  then have f1: "fs1 (d @ [mkstemp_name env]) = Some (File [])" by (auto dest: mkstemp_Inr)
  from assms m f1 show ?thesis
    by (auto simp: write_run_config_def Let_def open_write_file file_write_file
        split: prod.splits sum.splits)
qed

lemma create_autopkg_details_keeps_child:
  "fs (d @ [n]) = Some x \<Longrightarrow> snd (create_autopkg_details env d fs) (d @ [n]) = Some x"
  unfolding create_autopkg_details_def Let_def copy_file_def
  by (auto split: prod.splits sum.splits
      dest!: arg_cong [where f = snd]
      simp: makedirs_keeps copyfile_other open_append_keeps)

lemma setup_Inr:
  assumes "prepare_test_environment_setup env ts fs = (Inr files, td, fs1)"
  shows "td = Some (mkdtemp_path env) \<and>
         files = \<lparr>run_config_file = mkdtemp_path env @ [mkstemp_name env],
                   testrun_tmp_dir = mkdtemp_path env, unbuilt_dir = mkdtemp_path env\<rparr> \<and>
         (\<exists>c. fs1 (mkdtemp_path env @ [mkstemp_name env]) = Some (File c))"
proof -
  from assms obtain t fs0 where m: "mkdtemp (mkdtemp_path env) fs = (Inr t, fs0)"
    by (auto simp: prepare_test_environment_setup_def split: prod.splits sum.splits)
  then have t: "t = mkdtemp_path env" by (auto dest: mkdtemp_Inr)
  from assms m obtain p fs2 where w: "write_run_config env ts t fs0 = (Inr p, fs2)"
    by (auto simp: prepare_test_environment_setup_def split: prod.splits sum.splits)
  then obtain c where p: "p = t @ [mkstemp_name env]" "fs2 p = Some (File c)"
    by (auto dest: write_run_config_Inr)
  then have "snd (create_autopkg_details env t fs2) (t @ [mkstemp_name env]) = Some (File c)"
    by (simp add: create_autopkg_details_keeps_child)
  with assms m w p t show ?thesis
    by (auto simp: prepare_test_environment_setup_def split: prod.splits sum.splits)
qed

text \<open>
  Claim C9. In every value that the setup yields, \<^verbatim>\<open>testrun_tmp_dir\<close> and \<^verbatim>\<open>unbuilt_dir\<close>
  are the same path, the temporary directory, which exists as a directory, and
  \<^verbatim>\<open>run_config_file\<close> is the path of a file directly inside it.
\<close>

theorem yielded_paths_share_temp_dir:
  assumes "prepare_test_environment_setup env testsuite fs = (Inr files, temp_dir, fs1)"
  shows "testrun_tmp_dir files = unbuilt_dir files \<and>
         temp_dir = Some (testrun_tmp_dir files) \<and>
         run_config_file files = testrun_tmp_dir files @ [mkstemp_name env] \<and>
         strict_prefix (testrun_tmp_dir files) (run_config_file files) \<and>
         fs1 (testrun_tmp_dir files) = Some Dir \<and>
         (\<exists>c. fs1 (run_config_file files) = Some (File c))"
proof -
  from assms have a: "temp_dir = Some (mkdtemp_path env)"
    "files = \<lparr>run_config_file = mkdtemp_path env @ [mkstemp_name env],
               testrun_tmp_dir = mkdtemp_path env, unbuilt_dir = mkdtemp_path env\<rparr>"
    "\<exists>c. fs1 (mkdtemp_path env @ [mkstemp_name env]) = Some (File c)"
    by (auto dest: setup_Inr)
  from assms a(1) have "fs1 (mkdtemp_path env) = Some Dir"
    by (simp add: setup_temp_dir)
  with a show ?thesis by (simp add: strict_prefix_def)
qed



lemma example_setup_yields:
  "fst (prepare_test_environment_setup example_env example_testsuite example_fs) =
     Inr \<lparr>run_config_file = [''tmp'', ''tmpab12'', ''tmpcd34''],
          testrun_tmp_dir = [''tmp'', ''tmpab12''], unbuilt_dir = [''tmp'', ''tmpab12'']\<rparr>"
  by code_simp

lemma example_setup_temp_dir:
  "fst (snd (prepare_test_environment_setup example_env example_testsuite example_fs)) =
     Some [''tmp'', ''tmpab12'']"
  by code_simp


lemma example_setup:
  "prepare_test_environment_setup example_env example_testsuite example_fs =
     (Inr \<lparr>run_config_file = [''tmp'', ''tmpab12'', ''tmpcd34''],
           testrun_tmp_dir = [''tmp'', ''tmpab12''], unbuilt_dir = [''tmp'', ''tmpab12'']\<rparr>,
      Some [''tmp'', ''tmpab12''],
      snd (snd (prepare_test_environment_setup example_env example_testsuite example_fs)))"
  using example_setup_yields example_setup_temp_dir
  by (metis prod.collapse)

theorem yielded_paths_share_temp_dir_witness:
  "fst (prepare_test_environment_setup example_env example_testsuite example_fs) =
     Inr \<lparr>run_config_file = [''tmp'', ''tmpab12'', ''tmpcd34''],
          testrun_tmp_dir = [''tmp'', ''tmpab12''], unbuilt_dir = [''tmp'', ''tmpab12'']\<rparr> \<and>
   strict_prefix [''tmp'', ''tmpab12''] [''tmp'', ''tmpab12'', ''tmpcd34''] \<and>
   snd (snd (prepare_test_environment_setup example_env example_testsuite example_fs))
     [''tmp'', ''tmpab12''] = Some Dir \<and>
   (\<exists>c. snd (snd (prepare_test_environment_setup example_env example_testsuite example_fs))
     [''tmp'', ''tmpab12'', ''tmpcd34''] = Some (File c))"
  using yielded_paths_share_temp_dir [OF example_setup] example_setup_yields
  by (simp add: example_env_def strict_prefix_def)



subsection \<open>The run configuration\<close>














lemma shell_literal_append: "shell_literal (a @ b) = (shell_literal a \<and> shell_literal b)"
  by (simp add: shell_literal_def)






end
